theory Spec2Isabelle
  imports Complex_Main "HOL-Library.Word"
begin

unbundle bit_operations_syntax

section \<open>The single-process launcher (consumo.cpp)\<close>

subsection \<open>Windows integer types, FILETIME and ULARGE_INTEGER\<close>

type_synonym DWORD = "32 word"
type_synonym ULONGLONG = "64 word"

record FILETIME =
  dwLowDateTime :: DWORD
  dwHighDateTime :: DWORD

text \<open>
  \<^verbatim>\<open>ULARGE_INTEGER\<close> is the Windows union of the pair \<^verbatim>\<open>{LowPart, HighPart}\<close> with the
  64-bit \<^verbatim>\<open>QuadPart\<close>: \<^verbatim>\<open>LowPart\<close> is the low double word of \<^verbatim>\<open>QuadPart\<close> and
  \<^verbatim>\<open>HighPart\<close> the high one. The two parts are the fields of the record, and reading
  \<^verbatim>\<open>QuadPart\<close> is a function of them.
\<close>

record ULARGE_INTEGER =
  LowPart :: DWORD
  HighPart :: DWORD

definition QuadPart :: "ULARGE_INTEGER \<Rightarrow> ULONGLONG" where
  "QuadPart uli = push_bit 32 (ucast (HighPart uli)) OR ucast (LowPart uli)"

text \<open>
  \<^verbatim>\<open>
  ULONGLONG fileTimeToULL(const FILETIME &ft) {
      ULARGE_INTEGER uli;
      uli.LowPart  = ft.dwLowDateTime;
      uli.HighPart = ft.dwHighDateTime;
      return uli.QuadPart;
  }
  \<close>
\<close>

definition fileTimeToULL :: "FILETIME \<Rightarrow> ULONGLONG" where
  "fileTimeToULL ft =
     (let uli = \<lparr>LowPart = dwLowDateTime ft, HighPart = dwHighDateTime ft\<rparr>
      in QuadPart uli)"

subsection \<open>Double arithmetic\<close>

text \<open>
  The source computes the CPU time and the energy in C++ \<^verbatim>\<open>double\<close>. A double operation
  is the exact operation on the reals followed by the rounding of its result to a
  representable value. The rounding function is the parameter \<open>rnd\<close> of every definition
  that computes with doubles; the constants \<^verbatim>\<open>10000000.0\<close> and \<^verbatim>\<open>50.0\<close> are
  representable and stand for themselves. Where a property depends on the rounding, it
  assumes that \<open>rnd\<close> is monotone and maps 0 to 0, as rounding to nearest does. No value
  of this program leaves the finite range of a double: the largest is below
  \<open>2 ^ 64 * 50\<close>.
\<close>

type_synonym rounding = "real \<Rightarrow> real"

text \<open>The implicit conversion of the \<^verbatim>\<open>ULONGLONG\<close> operand of a double division.\<close>

definition ull_to_double :: "rounding \<Rightarrow> ULONGLONG \<Rightarrow> real" where
  "ull_to_double rnd n = rnd (real (unat n))"

text \<open>
  \<^verbatim>\<open>double totalTimeSeconds = (kernelTime + userTime) / 10000000.0;\<close>
  The sum is a sum of two \<^verbatim>\<open>ULONGLONG\<close>: it wraps modulo \<open>2 ^ 64\<close>.
\<close>

definition totalTimeSeconds :: "rounding \<Rightarrow> ULONGLONG \<Rightarrow> ULONGLONG \<Rightarrow> real" where
  "totalTimeSeconds rnd kernelTime userTime =
     rnd (ull_to_double rnd (kernelTime + userTime) / 10000000)"

text \<open>
  \<^verbatim>\<open>
  const double potenciaEstimadaW = 50.0;
  double energiaJoules = totalTimeSeconds * potenciaEstimadaW;
  \<close>
  The product is a function of its two operands; the program applies it to the constant.
\<close>

definition potenciaEstimadaW :: real where
  "potenciaEstimadaW = 50"

definition energiaJoules :: "rounding \<Rightarrow> real \<Rightarrow> real \<Rightarrow> real" where
  "energiaJoules rnd seconds potenciaW = rnd (seconds * potenciaW)"

subsection \<open>The command line\<close>

text \<open>
  \<^verbatim>\<open>
  std::ostringstream oss;
  for (int i = 1; i < argc; ++i) {
      std::string arg = argv[i];
      if (arg.find(' ') != std::string::npos) {
          oss << "\"" << arg << "\"";
      } else {
          oss << arg;
      }
      if (i < argc - 1) {
          oss << " ";
      }
  }
  std::string commandLineStr = oss.str();
  \<close>
  The loop is a recursion on the index \<open>i\<close> with the stream's contents as accumulator;
  \<open>argc\<close> is \<open>length argv\<close>. The loop runs only with \<open>1 \<le> i < argc\<close>, where
  \<open>argc - 1\<close> on the naturals is the program's \<open>argc - 1\<close>.
\<close>

function commandLine_loop :: "string list \<Rightarrow> nat \<Rightarrow> string \<Rightarrow> string" where
  \<open>commandLine_loop argv i oss =
     (if i < length argv then
        let arg = argv ! i;
            oss1 = (if CHR '' '' \<in> set arg then oss @ ''"'' @ arg @ ''"'' else oss @ arg);
            oss2 = (if i < length argv - 1 then oss1 @ '' '' else oss1)
        in commandLine_loop argv (i + 1) oss2
      else oss)\<close>
  by pat_completeness auto
termination
  by (relation "measure (\<lambda>(argv, i, oss). length argv - i)") auto

declare commandLine_loop.simps [simp del]

definition commandLineStr :: "string list \<Rightarrow> string" where
  "commandLineStr argv = commandLine_loop argv 1 []"

subsection \<open>The program and the operating system\<close>

text \<open>
  What the program does to the outside is a list of events, in program order: a line
  written to \<^verbatim>\<open>std::cout\<close> (its items as streamed, a double as its value), a call of
  \<^verbatim>\<open>printLastError\<close> (which writes the message and the system's error text to
  \<^verbatim>\<open>std::cerr\<close>), and the Windows calls.
\<close>

datatype item = Str string | Dbl real

datatype event =
    Stdout "item list"
  | PrintLastError string
  | CreateProcessA string string
  | WaitForSingleObject
  | GetProcessTimes
  | CloseHandle_hProcess
  | CloseHandle_hThread

text \<open>
  The three lines the program writes to \<^verbatim>\<open>std::cout\<close> besides the launch notice:
  \<^verbatim>\<open>
  std::cout << "Uso: " << argv[0] << " <programa> [argumentos]" << std::endl;
  std::cout << "Tiempo total de CPU usado: " << totalTimeSeconds << " segundos" << std::endl;
  std::cout << "Consumo energetico estimado: " << energiaJoules << " Joules" << std::endl;
  \<close>
  The accented e of the third literal is the two bytes \<open>0xC3 0xA9\<close> of the source file.
\<close>

definition usage_line :: "string \<Rightarrow> event" where
  "usage_line argv0 = Stdout [Str ''Uso: '', Str argv0, Str '' <programa> [argumentos]'']"

definition cpu_line :: "real \<Rightarrow> event" where
  "cpu_line seconds =
     Stdout [Str ''Tiempo total de CPU usado: '', Dbl seconds, Str '' segundos'']"

definition energy_line :: "real \<Rightarrow> event" where
  "energy_line joules =
     Stdout [Str (''Consumo energ'' @ [CHR 0xC3, CHR 0xA9] @ ''tico estimado: ''),
             Dbl joules, Str '' Joules'']"

text \<open>
  What the operating system answers: whether \<^verbatim>\<open>CreateProcessA\<close> succeeds for an
  application name and a command line, whether \<^verbatim>\<open>WaitForSingleObject\<close> with
  \<^verbatim>\<open>INFINITE\<close> ever returns (it does once the child has exited, and never while the
  child keeps running), and the four times of \<^verbatim>\<open>GetProcessTimes\<close> (creation, exit,
  kernel, user), \<open>None\<close> when the call fails.
\<close>

record os =
  createProcess :: "string \<Rightarrow> string \<Rightarrow> bool"
  waitReturns :: bool
  processTimes :: "(FILETIME \<times> FILETIME \<times> FILETIME \<times> FILETIME) option"

text \<open>
  \<^verbatim>\<open>main\<close> returns the events and the exit code; the exit code is \<open>None\<close> when the
  program never returns, which happens when the wait never does. The C runtime of
  Windows always passes the program's own name as \<^verbatim>\<open>argv[0]\<close>, so \<open>argv\<close> is
  \<open>argv0 # args\<close> and \<open>argc\<close> is at least 1. The branches follow the source: the test
  \<^verbatim>\<open>argc < 2\<close>, the failure of \<^verbatim>\<open>CreateProcessA\<close>, the wait, the failure of
  \<^verbatim>\<open>GetProcessTimes\<close>, and the report.
\<close>

definition main :: "rounding \<Rightarrow> os \<Rightarrow> string \<Rightarrow> string list \<Rightarrow> event list \<times> int option" where
  "main rnd sys argv0 args =
     (let argv = argv0 # args; argc = length argv in
      if argc < 2 then
        ([usage_line (argv ! 0)], Some 1)
      else
        let cmdLine = commandLineStr argv;
            appName = argv ! 1;
            launch = [CreateProcessA appName cmdLine]
        in
        if \<not> createProcess sys appName cmdLine then
          (launch @ [PrintLastError ''Error al crear el proceso.''], Some 1)
        else
          let launched = launch @ [Stdout [Str ''Proceso lanzado: '', Str cmdLine]] in
          if \<not> waitReturns sys then
            (launched @ [WaitForSingleObject], None)
          else
            let waited = launched @ [WaitForSingleObject, GetProcessTimes] in
            case processTimes sys of
              None \<Rightarrow>
                (waited @ [PrintLastError ''Error al obtener los tiempos del proceso.'',
                           CloseHandle_hProcess, CloseHandle_hThread], Some 1)
            | Some (ftCreation, ftExit, ftKernel, ftUser) \<Rightarrow>
                let kernelTime = fileTimeToULL ftKernel;
                    userTime = fileTimeToULL ftUser;
                    seconds = totalTimeSeconds rnd kernelTime userTime;
                    joules = energiaJoules rnd seconds potenciaEstimadaW
                in
                (waited @ [cpu_line seconds, energy_line joules,
                           CloseHandle_hProcess, CloseHandle_hThread], Some 0))"

subsection \<open>What is observed of a run\<close>

text \<open>
  The figures a run reports are read off its events: the value of every line that ends
  in \<^verbatim>\<open>" segundos"\<close> is a reported CPU time, the value of every line that ends in
  \<^verbatim>\<open>" Joules"\<close> a reported energy.
\<close>

fun cpu_report :: "event \<Rightarrow> real option" where
  "cpu_report (Stdout [Str s, Dbl x, Str u]) = (if u = '' segundos'' then Some x else None)"
| "cpu_report _ = None"

fun energy_report :: "event \<Rightarrow> real option" where
  "energy_report (Stdout [Str s, Dbl x, Str u]) = (if u = '' Joules'' then Some x else None)"
| "energy_report _ = None"

definition cpu_reports :: "event list \<Rightarrow> real list" where
  "cpu_reports evs = List.map_filter cpu_report evs"

definition energy_reports :: "event list \<Rightarrow> real list" where
  "energy_reports evs = List.map_filter energy_report evs"


fun is_CreateProcessA :: "event \<Rightarrow> bool" where
  "is_CreateProcessA (CreateProcessA app cmd) = True"
| "is_CreateProcessA _ = False"


subsection \<open>The command line in the words of the specification\<close>

text \<open>
  An argument with a space in it is put between double quotes, any other argument is
  left as it is, and the arguments are joined by single spaces. These definitions follow
  the specification; \<open>commandLine_loop\<close> above follows the source.
\<close>

definition spec_quote :: "string \<Rightarrow> string" where
  \<open>spec_quote arg = (if CHR '' '' \<in> set arg then ''"'' @ arg @ ''"'' else arg)\<close>

fun spec_join :: "string list \<Rightarrow> string" where
  "spec_join [] = []"
| "spec_join [x] = x"
| "spec_join (x # y # ys) = x @ '' '' @ spec_join (y # ys)"

definition spec_commandLine :: "string list \<Rightarrow> string" where
  "spec_commandLine args = spec_join (map spec_quote args)"

section \<open>The multi-process metering engine\<close>

text \<open>
  The repository's README describes a second program, the Python package \<^verbatim>\<open>main\<close>
  (\<^verbatim>\<open>energy_monitor.py\<close>, \<^verbatim>\<open>process_detector.py\<close>, \<^verbatim>\<open>process_runner.py\<close>,
  \<^verbatim>\<open>config.py\<close>), which monitors every running process. Its Python sources are not
  available, so the engine is modelled from the specification (sections 3, 4.1, 4.2
  and 4.3). Energies and timestamps are reals.
\<close>

datatype Status = Active | Stopped

text \<open>Modelled from the spec: an entry of a process snapshot (section 6), \<open>{id, name,
  cpuTimeSeconds}\<close>; the Python process source is missing.\<close>

record ProcessRecord =
  proc_id :: nat
  proc_name :: string
  cpuTimeSeconds :: "real option"

text \<open>Modelled from the spec: the MonitorState of section 3 (accumulated energy, last-sample
  timestamp, status), with the ProcessRecord it meters and its first-seen timestamp; the
  Python monitor class is missing.\<close>

record MonitorState =
  monitored :: ProcessRecord
  firstSeen :: real
  accumulated :: real
  lastSample :: real
  status :: Status

text \<open>Modelled from the spec: the Energy Model of section 4.1, "time \<times> constant factor";
  the Python energy function is missing.\<close>

definition energy :: "real \<Rightarrow> real \<Rightarrow> real" where
  "energy elapsedSeconds powerFactor = elapsedSeconds * powerFactor"

text \<open>Modelled from the spec: \<open>start(record, now)\<close> of section 4.2 creates
  \<open>MonitorState{Active, accumulated=0, lastSample=now}\<close>; the Python monitor is missing.
  \<open>reconcile\<close> starts a monitor only for an identifier that is not tracked, so the
  \<open>DuplicateMonitor\<close> failure of \<open>start\<close> does not arise there.\<close>

definition start :: "ProcessRecord \<Rightarrow> real \<Rightarrow> MonitorState" where
  "start record now =
     \<lparr>monitored = record, firstSeen = now, accumulated = 0, lastSample = now, status = Active\<rparr>"

text \<open>Modelled from the spec: \<open>sample(now)\<close> of section 4.2: elapsed is \<open>now - lastSample\<close>
  clamped to 0, \<open>energy(elapsed, powerFactor)\<close> is added to accumulated, lastSample
  becomes now; a no-op when the status is Stopped. The Python monitor is missing.\<close>

definition sample :: "real \<Rightarrow> real \<Rightarrow> MonitorState \<Rightarrow> MonitorState" where
  "sample powerFactor now m =
     (if status m = Stopped then m
      else let elapsed = max 0 (now - lastSample m)
           in m\<lparr>accumulated := accumulated m + energy elapsed powerFactor, lastSample := now\<rparr>)"

text \<open>Modelled from the spec: \<open>stop(now)\<close> of section 4.2 performs a final \<open>sample(now)\<close>,
  then sets the status to Stopped. The Python monitor is missing.\<close>

definition stop :: "real \<Rightarrow> real \<Rightarrow> MonitorState \<Rightarrow> MonitorState" where
  "stop powerFactor now m = (sample powerFactor now m)\<lparr>status := Stopped\<rparr>"

text \<open>Modelled from the spec: the Monitor Registry of section 4.3, the tracked monitors and
  the "final" (retained, inactive) ones; the Python registry is missing.\<close>

record Registry =
  active :: "MonitorState list"
  final :: "MonitorState list"

definition emptyRegistry :: Registry where
  "emptyRegistry = \<lparr>active = [], final = []\<rparr>"

text \<open>Modelled from the spec: "tracked" and "absent from snapshot" of section 4.3, by process
  identifier; the Python registry is missing.\<close>

definition tracked :: "MonitorState list \<Rightarrow> nat \<Rightarrow> bool" where
  "tracked ms i = (i \<in> set (map (\<lambda>m. proc_id (monitored m)) ms))"

definition present :: "ProcessRecord list \<Rightarrow> MonitorState \<Rightarrow> bool" where
  "present snapshot m = (proc_id (monitored m) \<in> set (map proc_id snapshot))"

text \<open>Modelled from the spec: "for each ProcessRecord in snapshot not yet tracked, calls
  Monitor.start" (section 4.3); the Python registry is missing.\<close>

fun start_untracked :: "real \<Rightarrow> ProcessRecord list \<Rightarrow> MonitorState list \<Rightarrow> MonitorState list" where
  "start_untracked now [] ms = ms"
| "start_untracked now (r # rs) ms =
     start_untracked now rs (if tracked ms (proc_id r) then ms else ms @ [start r now])"

text \<open>Modelled from the spec: \<open>reconcile(snapshot, now)\<close> of section 4.3. A tracked monitor
  whose identifier is absent from the snapshot is stopped and moved to the final set, a
  tracked monitor still present is sampled, and a monitor is started for each record not
  yet tracked. The Python registry is missing.\<close>

definition reconcile :: "real \<Rightarrow> ProcessRecord list \<Rightarrow> real \<Rightarrow> Registry \<Rightarrow> Registry" where
  "reconcile powerFactor snapshot now reg =
     (let gone = filter (\<lambda>m. \<not> present snapshot m) (active reg);
          kept = filter (present snapshot) (active reg)
      in \<lparr>active = start_untracked now snapshot (map (sample powerFactor now) kept),
          final = final reg @ map (stop powerFactor now) gone\<rparr>)"

text \<open>Modelled from the spec: \<open>totalEnergy()\<close> of section 4.3, "the sum of accumulated across
  every Monitor ever created (Active + Stopped)"; the Python aggregator is missing.\<close>

definition totalEnergy :: "Registry \<Rightarrow> real" where
  "totalEnergy reg = sum_list (map accumulated (active reg @ final reg))"

text \<open>Modelled from the spec: a sequence of reconcile cycles, each a snapshot and the time
  it is taken at (the sampling loop of section 4.4, which is missing), and the history it
  leaves: the value every monitor had when its cycle removed it from the active set.\<close>

fun cycles :: "real \<Rightarrow> (ProcessRecord list \<times> real) list \<Rightarrow> Registry \<Rightarrow> Registry" where
  "cycles powerFactor [] reg = reg"
| "cycles powerFactor ((snapshot, now) # rest) reg =
     cycles powerFactor rest (reconcile powerFactor snapshot now reg)"

fun removed_values :: "real \<Rightarrow> (ProcessRecord list \<times> real) list \<Rightarrow> Registry \<Rightarrow> real list" where
  "removed_values powerFactor [] reg = []"
| "removed_values powerFactor ((snapshot, now) # rest) reg =
     map (\<lambda>m. accumulated (stop powerFactor now m))
         (filter (\<lambda>m. \<not> present snapshot m) (active reg))
     @ removed_values powerFactor rest (reconcile powerFactor snapshot now reg)"

section \<open>Properties of the launcher\<close>

subsection \<open>Reassembling a FILETIME\<close>

lemma unat_QuadPart:
  "unat (QuadPart uli) = unat (HighPart uli) * 2 ^ 32 + unat (LowPart uli)"
proof -
  define h l where "h = HighPart uli" and "l = LowPart uli"
  have hb: "unat h < 2 ^ 32" using unsigned_less [of h] by simp
  have lb: "unat l < 2 ^ 32" using unsigned_less [of l] by simp
  have bnd: "unat h * 2 ^ 32 + unat l < 2 ^ 64"
    using hb lb by simp
  have "(push_bit 32 (ucast h) OR ucast l :: 64 word) = word_cat h l"
    by (simp add: word_cat_eq_push_bit_or)
  also have "\<dots> = push_bit 32 (ucast h) + ucast l"
    by (simp add: word_cat_eq)
  also have "\<dots> = of_nat (unat h * 2 ^ 32 + unat l)"
    by (simp add: push_bit_eq_mult)
  finally have "unat (push_bit 32 (ucast h) OR ucast l :: 64 word) = unat h * 2 ^ 32 + unat l"
    using bnd by (simp add: unat_of_nat take_bit_nat_eq_self del: of_nat_add of_nat_mult)
  then show ?thesis
    by (simp add: QuadPart_def h_def l_def)
qed

lemma low_QuadPart: "ucast (QuadPart uli) = LowPart uli"
  unfolding QuadPart_def by (rule bit_word_eqI) (auto simp: bit_simps)

lemma high_QuadPart: "ucast (drop_bit 32 (QuadPart uli)) = HighPart uli"
  unfolding QuadPart_def by (rule bit_word_eqI) (auto simp: bit_simps dest: bit_imp_le_length)

text \<open>
  Claim C10. For every FILETIME, \<open>fileTimeToULL\<close> returns the 64-bit integer
  \<open>dwHighDateTime * 2 ^ 32 + dwLowDateTime\<close>, and nothing is lost: the low and the high
  double word of the result are the two halves it was made from.
\<close>

theorem fileTimeToULL_reassembles:
  "unat (fileTimeToULL ft) = unat (dwHighDateTime ft) * 2 ^ 32 + unat (dwLowDateTime ft)
   \<and> ucast (fileTimeToULL ft) = dwLowDateTime ft
   \<and> ucast (drop_bit 32 (fileTimeToULL ft)) = dwHighDateTime ft"
  by (simp add: fileTimeToULL_def unat_QuadPart low_QuadPart high_QuadPart)

subsection \<open>CPU time and energy\<close>

lemma unat_fileTimeToULL:
  "unat (fileTimeToULL ft) = unat (dwHighDateTime ft) * 2 ^ 32 + unat (dwLowDateTime ft)"
  by (simp add: fileTimeToULL_def unat_QuadPart)

lemma totalTimeSeconds_fits:
  assumes "unat k + unat u < 2 ^ 64"
  shows "totalTimeSeconds rnd k u = rnd (rnd (real (unat k + unat u)) / 10000000)"
proof -
  have "unat (k + u) = (unat k + unat u) mod 2 ^ 64"
    by (simp add: unat_word_ariths)
  also have "\<dots> = unat k + unat u"
    using assms by (simp only: mod_less)
  finally show ?thesis
    by (simp only: totalTimeSeconds_def ull_to_double_def)
qed

text \<open>
  Claim C5. Let \<open>K\<close> and \<open>U\<close> be the kernel and the user tick counts that the operating
  system reports, each the 64-bit number \<open>dwHighDateTime * 2 ^ 32 + dwLowDateTime\<close> of
  its FILETIME. The CPU time the program computes from them is the tick sum divided by
  \<open>10 ^ 7\<close>: \<open>(K + U) / 10 ^ 7\<close> in exact arithmetic, and in double arithmetic the same
  quotient with the conversion of the sum and the division each rounded. This holds for
  all tick counts whose sum is a 64-bit number, \<open>K + U < 2 ^ 64\<close>; a sum beyond that
  stands for more than 58,000 years of CPU time.
\<close>

theorem totalTimeSeconds_is_tick_sum:
  assumes "K = unat (dwHighDateTime ftKernel) * 2 ^ 32 + unat (dwLowDateTime ftKernel)"
    and "U = unat (dwHighDateTime ftUser) * 2 ^ 32 + unat (dwLowDateTime ftUser)"
    and "K + U < 2 ^ 64"
  shows "totalTimeSeconds (\<lambda>x. x) (fileTimeToULL ftKernel) (fileTimeToULL ftUser)
           = real (K + U) / 10 ^ 7
       \<and> totalTimeSeconds rnd (fileTimeToULL ftKernel) (fileTimeToULL ftUser)
           = rnd (rnd (real (K + U)) / 10 ^ 7)"
proof -
  have fits: "unat (fileTimeToULL ftKernel) + unat (fileTimeToULL ftUser) < 2 ^ 64"
    using assms by (simp only: unat_fileTimeToULL)
  have sum: "unat (fileTimeToULL ftKernel) + unat (fileTimeToULL ftUser) = K + U"
    using assms(1,2) by (simp only: unat_fileTimeToULL)
  show ?thesis
    by (simp add: totalTimeSeconds_fits [OF fits] sum)
qed

text \<open>
  A child that used \<open>5 * 10 ^ 9\<close> kernel ticks (high double word 1, low double word
  705032704) and \<open>10 ^ 7\<close> user ticks has a CPU time of 501 seconds.
\<close>

theorem totalTimeSeconds_is_tick_sum_witness:
  "totalTimeSeconds (\<lambda>x. x)
     (fileTimeToULL \<lparr>dwLowDateTime = 705032704, dwHighDateTime = 1\<rparr>)
     (fileTimeToULL \<lparr>dwLowDateTime = 10000000, dwHighDateTime = 0\<rparr>) = 501"
  using totalTimeSeconds_is_tick_sum [of 5000000000
      "\<lparr>dwLowDateTime = 705032704, dwHighDateTime = 1\<rparr>" 10000000
      "\<lparr>dwLowDateTime = 10000000, dwHighDateTime = 0\<rparr>" "\<lambda>x. x"]
  by simp

text \<open>
  Claim C3. For every power factor \<open>w\<close>, the energy of 0 seconds is 0; and for every
  elapsed time \<open>t \<ge> 0\<close> the computed energy is not negative: with the program's power
  factor, and with every power factor that is not negative itself. The rounding is any
  monotone function that maps 0 to 0.
\<close>

theorem energiaJoules_zero_nonneg:
  assumes "rnd 0 = 0" and "mono rnd"
  shows "energiaJoules rnd 0 w = 0
       \<and> (0 \<le> t \<longrightarrow> 0 \<le> energiaJoules rnd t potenciaEstimadaW)
       \<and> (0 \<le> t \<longrightarrow> 0 \<le> w \<longrightarrow> 0 \<le> energiaJoules rnd t w)"
proof -
  have nonneg: "0 \<le> rnd (t * v)" if "0 \<le> t" "0 \<le> v" for v
  proof -
    have "0 \<le> t * v" using that by simp
    with assms(2) have "rnd 0 \<le> rnd (t * v)" by (rule monoD)
    then show ?thesis using assms(1) by simp
  qed
  show ?thesis
    using assms(1) nonneg by (simp add: energiaJoules_def potenciaEstimadaW_def)
qed

theorem energiaJoules_zero_nonneg_witness:
  "energiaJoules (\<lambda>x. x) 0 50 = 0
   \<and> 0 \<le> energiaJoules (\<lambda>x. x) 3 potenciaEstimadaW
   \<and> 0 \<le> energiaJoules (\<lambda>x. x) 3 50"
  using energiaJoules_zero_nonneg [of "\<lambda>x. x" 50 3] by (simp add: mono_def)

text \<open>
  Claim C4. For a fixed power factor the energy does not decrease when the elapsed time
  grows: for \<open>a \<le> b\<close> (in particular \<open>0 \<le> a \<le> b\<close>) the energy of \<open>a\<close> is at most
  the energy of \<open>b\<close>, with the program's power factor and with every power factor that
  is not negative. The rounding is any monotone function.
\<close>

theorem energiaJoules_monotone:
  assumes "mono rnd" and "a \<le> b"
  shows "energiaJoules rnd a potenciaEstimadaW \<le> energiaJoules rnd b potenciaEstimadaW
       \<and> (0 \<le> w \<longrightarrow> energiaJoules rnd a w \<le> energiaJoules rnd b w)"
proof -
  have le: "rnd (a * v) \<le> rnd (b * v)" if "0 \<le> v" for v
  proof -
    have "a * v \<le> b * v" using assms(2) that by (rule mult_right_mono)
    with assms(1) show ?thesis by (rule monoD)
  qed
  show ?thesis
    using le by (simp add: energiaJoules_def potenciaEstimadaW_def)
qed

theorem energiaJoules_monotone_witness:
  "energiaJoules (\<lambda>x. x) 1 potenciaEstimadaW \<le> energiaJoules (\<lambda>x. x) 2 potenciaEstimadaW
   \<and> energiaJoules (\<lambda>x. x) 1 50 \<le> energiaJoules (\<lambda>x. x) 2 50"
  using energiaJoules_monotone [of "\<lambda>x. x" 1 2 50] by (simp add: mono_def)

subsection \<open>The command line is the quoted arguments joined by spaces\<close>

lemma spec_join_Cons: "spec_join (x # xs) = (if xs = [] then x else x @ '' '' @ spec_join xs)"
  by (cases xs) simp_all

lemma spec_quote_append:
  \<open>(if CHR '' '' \<in> set arg then oss @ ''"'' @ arg @ ''"'' else oss @ arg) = oss @ spec_quote arg\<close>
  by (simp add: spec_quote_def)

lemma commandLine_loop_eq:
  "commandLine_loop argv i oss = oss @ spec_join (map spec_quote (drop i argv))"
proof (induction argv i oss rule: commandLine_loop.induct)
  case (1 argv i oss)
  show ?case
  proof (cases "i < length argv")
    case False
    then show ?thesis by (simp add: commandLine_loop.simps [of argv i oss])
  next
    case True
    define oss2 where
      "oss2 = (if i < length argv - 1 then (oss @ spec_quote (argv ! i)) @ '' ''
               else oss @ spec_quote (argv ! i))"
    have step: "commandLine_loop argv i oss = commandLine_loop argv (i + 1) oss2"
      by (subst commandLine_loop.simps)
         (simp only: True if_True Let_def spec_quote_append oss2_def)
    have IH: "commandLine_loop argv (i + 1) oss2
                = oss2 @ spec_join (map spec_quote (drop (i + 1) argv))"
      unfolding oss2_def using 1 [OF True refl refl refl, unfolded spec_quote_append] .
    have d: "drop i argv = argv ! i # drop (Suc i) argv"
      using True by (simp add: Cons_nth_drop_Suc)
    show ?thesis
      unfolding step IH using True by (auto simp: d spec_join_Cons oss2_def)
  qed
qed

lemma commandLineStr_eq: "commandLineStr (argv0 # args) = spec_commandLine args"
  by (simp add: commandLineStr_def commandLine_loop_eq spec_commandLine_def)

subsection \<open>The runs of main\<close>


lemma main_create_fails:
  assumes "\<not> createProcess sys a (commandLineStr (argv0 # a # as))"
  shows "main rnd sys argv0 (a # as) =
           ([CreateProcessA a (commandLineStr (argv0 # a # as)),
             PrintLastError ''Error al crear el proceso.''], Some 1)"
  using assms by (simp add: main_def Let_def)

lemma main_never_returns:
  assumes "createProcess sys a (commandLineStr (argv0 # a # as))" and "\<not> waitReturns sys"
  shows "main rnd sys argv0 (a # as) =
           ([CreateProcessA a (commandLineStr (argv0 # a # as)),
             Stdout [Str ''Proceso lanzado: '', Str (commandLineStr (argv0 # a # as))],
             WaitForSingleObject], None)"
  using assms by (simp add: main_def Let_def)

lemma main_times_fail:
  assumes "createProcess sys a (commandLineStr (argv0 # a # as))" and "waitReturns sys"
    and "processTimes sys = None"
  shows "main rnd sys argv0 (a # as) =
           ([CreateProcessA a (commandLineStr (argv0 # a # as)),
             Stdout [Str ''Proceso lanzado: '', Str (commandLineStr (argv0 # a # as))],
             WaitForSingleObject, GetProcessTimes,
             PrintLastError ''Error al obtener los tiempos del proceso.'',
             CloseHandle_hProcess, CloseHandle_hThread], Some 1)"
  using assms by (simp add: main_def Let_def)

lemma main_reports:
  assumes "createProcess sys a (commandLineStr (argv0 # a # as))" and "waitReturns sys"
    and "processTimes sys = Some (ftCreation, ftExit, ftKernel, ftUser)"
  shows "main rnd sys argv0 (a # as) =
           ([CreateProcessA a (commandLineStr (argv0 # a # as)),
             Stdout [Str ''Proceso lanzado: '', Str (commandLineStr (argv0 # a # as))],
             WaitForSingleObject, GetProcessTimes,
             cpu_line (totalTimeSeconds rnd (fileTimeToULL ftKernel) (fileTimeToULL ftUser)),
             energy_line (energiaJoules rnd
               (totalTimeSeconds rnd (fileTimeToULL ftKernel) (fileTimeToULL ftUser))
               potenciaEstimadaW),
             CloseHandle_hProcess, CloseHandle_hThread], Some 0)"
  using assms by (simp add: main_def Let_def)

lemma main_cases:
  obtains (usage) "args = []"
  | (create_fails) a as where "args = a # as"
      "\<not> createProcess sys a (commandLineStr (prog # a # as))"
  | (never_returns) a as where "args = a # as"
      "createProcess sys a (commandLineStr (prog # a # as))" "\<not> waitReturns sys"
  | (times_fail) a as where "args = a # as"
      "createProcess sys a (commandLineStr (prog # a # as))" "waitReturns sys"
      "processTimes sys = None"
  | (reports) a as ftCreation ftExit ftKernel ftUser where "args = a # as"
      "createProcess sys a (commandLineStr (prog # a # as))" "waitReturns sys"
      "processTimes sys = Some (ftCreation, ftExit, ftKernel, ftUser)"
proof (cases args)
  case Nil
  then show ?thesis by (rule usage)
next
  case (Cons a as)
  show ?thesis
  proof (cases "createProcess sys a (commandLineStr (prog # a # as))")
    case False
    with Cons show ?thesis by (rule create_fails)
  next
    case cp: True
    show ?thesis
    proof (cases "waitReturns sys")
      case False
      with Cons cp show ?thesis by (rule never_returns)
    next
      case ex: True
      show ?thesis
      proof (cases "processTimes sys")
        case None
        with Cons cp ex show ?thesis by (rule times_fail)
      next
        case (Some q)
        obtain c e k u where "q = (c, e, k, u)" by (cases q) auto
        with Some have "processTimes sys = Some (c, e, k, u)" by simp
        with Cons cp ex show ?thesis by (rule reports)
      qed
    qed
  qed
qed

lemma cpu_report_lines [simp]:
  "cpu_report (cpu_line x) = Some x" "cpu_report (energy_line x) = None"
  "cpu_report (usage_line z) = None"
  by (simp_all add: cpu_line_def energy_line_def usage_line_def)

lemma energy_report_lines [simp]:
  "energy_report (cpu_line x) = None" "energy_report (energy_line x) = Some x"
  "energy_report (usage_line z) = None"
  by (simp_all add: cpu_line_def energy_line_def usage_line_def)

lemma line_not_call [simp]:
  "cpu_line x \<noteq> WaitForSingleObject" "energy_line x \<noteq> WaitForSingleObject"
  "\<not> is_CreateProcessA (cpu_line x)" "\<not> is_CreateProcessA (energy_line x)"
  "\<not> is_CreateProcessA (usage_line z)"
  by (simp_all add: cpu_line_def energy_line_def usage_line_def)

text \<open>
  Claim C9. For every \<open>argc \<ge> 2\<close> the one call of \<^verbatim>\<open>CreateProcessA\<close>, the first
  event of the run, is handed \<^verbatim>\<open>argv[1]\<close> as the executable and, as the command line,
  the arguments \<^verbatim>\<open>argv[1]\<close> to \<^verbatim>\<open>argv[argc-1]\<close> joined by single spaces, each argument
  with a space in it between double quotes and every other argument unchanged.
\<close>

theorem commandLine_handed_to_CreateProcessA:
  assumes "args \<noteq> []"
  shows "filter is_CreateProcessA (fst (main rnd sys argv0 args))
           = [CreateProcessA ((argv0 # args) ! 1) (spec_commandLine args)]
       \<and> hd (fst (main rnd sys argv0 args))
           = CreateProcessA ((argv0 # args) ! 1) (spec_commandLine args)"
proof (cases rule: main_cases [where args = args and sys = sys and prog = argv0])
  case usage
  with assms show ?thesis by simp
next
  case (create_fails a as)
  then show ?thesis
    by (simp add: main_create_fails) (simp add: commandLineStr_eq)
next
  case (never_returns a as)
  then show ?thesis
    by (simp add: main_never_returns) (simp add: commandLineStr_eq)
next
  case (times_fail a as)
  then show ?thesis
    by (simp add: main_times_fail) (simp add: commandLineStr_eq)
next
  case (reports a as ftCreation ftExit ftKernel ftUser)
  then show ?thesis
    by (simp add: main_reports) (simp add: commandLineStr_eq)
qed

theorem commandLine_handed_to_CreateProcessA_witness:
  \<open>hd (fst (main (\<lambda>x. x)
        \<lparr>createProcess = (\<lambda>app cmd. False), waitReturns = True, processTimes = None\<rparr>
        ''consumo.exe'' [''my tool.exe'', ''-v'', ''two words'']))
     = CreateProcessA ''my tool.exe'' ''"my tool.exe" -v "two words"''\<close>
  using commandLine_handed_to_CreateProcessA
    [of "[''my tool.exe'', ''-v'', ''two words'']" "\<lambda>x. x"
        "\<lparr>createProcess = (\<lambda>app cmd. False), waitReturns = True, processTimes = None\<rparr>"
        "''consumo.exe''"]
  by (simp add: spec_commandLine_def spec_quote_def)



text \<open>
  Claim C1. When the target is launched, the wait for it returns and its times are read,
  the run reports exactly one energy figure; nothing is reported before the wait for the
  child's exit, and the one figure, reported after it, is the total CPU seconds times
  50. The total CPU seconds, the one CPU time the run reports, are the sum of the kernel
  and the user tick counts that \<^verbatim>\<open>GetProcessTimes\<close> gave, divided by \<open>10 ^ 7\<close>; each
  count is the 64-bit number \<open>dwHighDateTime * 2 ^ 32 + dwLowDateTime\<close> of its FILETIME.
  The conversion of the sum, the division and the product are double operations, each
  rounded. The tick sum is a 64-bit number, \<open>K + U < 2 ^ 64\<close>, as it is for every CPU
  time below 58,000 years.
\<close>

theorem energy_computed_once_at_exit:
  assumes "args \<noteq> []"
    and "createProcess sys ((argv0 # args) ! 1) (commandLineStr (argv0 # args))"
    and "waitReturns sys"
    and "processTimes sys = Some (ftCreation, ftExit, ftKernel, ftUser)"
    and "K = unat (dwHighDateTime ftKernel) * 2 ^ 32 + unat (dwLowDateTime ftKernel)"
    and "U = unat (dwHighDateTime ftUser) * 2 ^ 32 + unat (dwLowDateTime ftUser)"
    and "K + U < 2 ^ 64"
  shows "energy_reports (takeWhile (\<lambda>e. e \<noteq> WaitForSingleObject)
             (fst (main rnd sys argv0 args))) = []
       \<and> energy_reports (dropWhile (\<lambda>e. e \<noteq> WaitForSingleObject)
             (fst (main rnd sys argv0 args)))
           = [rnd (rnd (rnd (real (K + U)) / 10 ^ 7) * 50)]
       \<and> cpu_reports (fst (main rnd sys argv0 args))
           = [rnd (rnd (real (K + U)) / 10 ^ 7)]"
proof -
  obtain a as where args: "args = a # as"
    using assms(1) by (cases args) auto
  have fits: "unat (fileTimeToULL ftKernel) + unat (fileTimeToULL ftUser) < 2 ^ 64"
    using assms(5-7) by (simp only: unat_fileTimeToULL)
  have sum: "unat (fileTimeToULL ftKernel) + unat (fileTimeToULL ftUser) = K + U"
    using assms(5,6) by (simp only: unat_fileTimeToULL)
  have seconds: "totalTimeSeconds rnd (fileTimeToULL ftKernel) (fileTimeToULL ftUser)
                   = rnd (rnd (real (K + U)) / 10 ^ 7)"
    by (simp add: totalTimeSeconds_fits [OF fits] sum)
  show ?thesis
    using assms(2-4) unfolding args
    by (simp add: main_reports energy_reports_def cpu_reports_def map_filter_simps
        potenciaEstimadaW_def energiaJoules_def seconds)
qed

text \<open>
  A child that used \<open>5 * 10 ^ 9\<close> kernel ticks (high double word 1, low double word
  705032704) and \<open>10 ^ 7\<close> user ticks: 501 seconds and 25050 Joules.
\<close>

theorem energy_computed_once_at_exit_witness:
  "(let zero = \<lparr>dwLowDateTime = 0, dwHighDateTime = 0\<rparr>;
        kernel = \<lparr>dwLowDateTime = 705032704, dwHighDateTime = 1\<rparr>;
        user = \<lparr>dwLowDateTime = 10000000, dwHighDateTime = 0\<rparr>;
        sys = \<lparr>createProcess = (\<lambda>app cmd. True), waitReturns = True,
                processTimes = Some (zero, zero, kernel, user)\<rparr>;
        evs = fst (main (\<lambda>x. x) sys ''consumo.exe'' [''notepad.exe''])
    in energy_reports (takeWhile (\<lambda>e. e \<noteq> WaitForSingleObject) evs) = []
       \<and> energy_reports (dropWhile (\<lambda>e. e \<noteq> WaitForSingleObject) evs) = [25050]
       \<and> cpu_reports evs = [501])"
proof -
  let ?zero = "\<lparr>dwLowDateTime = 0, dwHighDateTime = 0\<rparr>"
  let ?kernel = "\<lparr>dwLowDateTime = 705032704, dwHighDateTime = 1\<rparr>"
  let ?user = "\<lparr>dwLowDateTime = 10000000, dwHighDateTime = 0\<rparr>"
  let ?sys = "\<lparr>createProcess = (\<lambda>app cmd. True), waitReturns = True,
                processTimes = Some (?zero, ?zero, ?kernel, ?user)\<rparr>"
  show ?thesis
    unfolding Let_def
    using energy_computed_once_at_exit
      [of "[''notepad.exe'']" ?sys "''consumo.exe''" ?zero ?zero ?kernel ?user
          5000000000 10000000 "\<lambda>x. x"]
    by simp
qed

text \<open>
  Claim C2, as amended. In every run that reaches the report, the energy figure is
  reported in Joules: the line is labelled \<^verbatim>\<open>Joules\<close> and its value is the total CPU
  seconds times 50 (watts). No conversion to megawatt-hours takes place.
\<close>

theorem energy_reported_in_joules:
  assumes "args \<noteq> []"
    and "createProcess sys ((argv0 # args) ! 1) (commandLineStr (argv0 # args))"
    and "waitReturns sys"
    and "processTimes sys = Some (ftCreation, ftExit, ftKernel, ftUser)"
  shows "Stdout [Str (''Consumo energ'' @ [CHR 0xC3, CHR 0xA9] @ ''tico estimado: ''),
                 Dbl (rnd (totalTimeSeconds rnd (fileTimeToULL ftKernel) (fileTimeToULL ftUser)
                           * 50)),
                 Str '' Joules'']
           \<in> set (fst (main rnd sys argv0 args))
       \<and> energy_reports (fst (main rnd sys argv0 args))
           = [rnd (totalTimeSeconds rnd (fileTimeToULL ftKernel) (fileTimeToULL ftUser) * 50)]"
proof -
  obtain a as where args: "args = a # as"
    using assms(1) by (cases args) auto
  show ?thesis
    using assms(2-4) unfolding args
    by (simp add: main_reports energy_reports_def map_filter_simps
        potenciaEstimadaW_def energiaJoules_def energy_line_def)
qed

theorem energy_reported_in_joules_witness:
  "(let zero = \<lparr>dwLowDateTime = 0, dwHighDateTime = 0\<rparr>;
        kernel = \<lparr>dwLowDateTime = 10000000, dwHighDateTime = 0\<rparr>;
        sys = \<lparr>createProcess = (\<lambda>app cmd. True), waitReturns = True,
                processTimes = Some (zero, zero, kernel, zero)\<rparr>
    in energy_reports (fst (main (\<lambda>x. x) sys ''consumo.exe'' [''notepad.exe''])) = [50])"
proof -
  let ?zero = "\<lparr>dwLowDateTime = 0, dwHighDateTime = 0\<rparr>"
  let ?kernel = "\<lparr>dwLowDateTime = 10000000, dwHighDateTime = 0\<rparr>"
  let ?sys = "\<lparr>createProcess = (\<lambda>app cmd. True), waitReturns = True,
                processTimes = Some (?zero, ?zero, ?kernel, ?zero)\<rparr>"
  show ?thesis
    unfolding Let_def
    using energy_reported_in_joules
      [of "[''notepad.exe'']" ?sys "''consumo.exe''" ?zero ?zero ?kernel ?zero "\<lambda>x. x"]
    by (simp add: totalTimeSeconds_def ull_to_double_def fileTimeToULL_def QuadPart_def)
qed

text \<open>
  Claim C2, as stated, fails: it says the reported figure is in megawatt-hours, the
  seconds times about \<open>1.3889e-8\<close>. A child that used \<open>10 ^ 7\<close> kernel ticks has a
  reported CPU time of 1 second and a reported energy of 50, which is not
  \<open>1.3889e-8 * 1\<close>.
\<close>

theorem energy_in_MWh_counterexample:
  "cpu_reports (fst (main (\<lambda>x. x)
      \<lparr>createProcess = (\<lambda>app cmd. True), waitReturns = True,
        processTimes = Some (\<lparr>dwLowDateTime = 0, dwHighDateTime = 0\<rparr>,
                             \<lparr>dwLowDateTime = 0, dwHighDateTime = 0\<rparr>,
                             \<lparr>dwLowDateTime = 10000000, dwHighDateTime = 0\<rparr>,
                             \<lparr>dwLowDateTime = 0, dwHighDateTime = 0\<rparr>)\<rparr>
      ''consumo.exe'' [''notepad.exe''])) = [1]
   \<and> energy_reports (fst (main (\<lambda>x. x)
      \<lparr>createProcess = (\<lambda>app cmd. True), waitReturns = True,
        processTimes = Some (\<lparr>dwLowDateTime = 0, dwHighDateTime = 0\<rparr>,
                             \<lparr>dwLowDateTime = 0, dwHighDateTime = 0\<rparr>,
                             \<lparr>dwLowDateTime = 10000000, dwHighDateTime = 0\<rparr>,
                             \<lparr>dwLowDateTime = 0, dwHighDateTime = 0\<rparr>)\<rparr>
      ''consumo.exe'' [''notepad.exe''])) = [50]
   \<and> energy_reports (fst (main (\<lambda>x. x)
      \<lparr>createProcess = (\<lambda>app cmd. True), waitReturns = True,
        processTimes = Some (\<lparr>dwLowDateTime = 0, dwHighDateTime = 0\<rparr>,
                             \<lparr>dwLowDateTime = 0, dwHighDateTime = 0\<rparr>,
                             \<lparr>dwLowDateTime = 10000000, dwHighDateTime = 0\<rparr>,
                             \<lparr>dwLowDateTime = 0, dwHighDateTime = 0\<rparr>)\<rparr>
      ''consumo.exe'' [''notepad.exe''])) \<noteq> [13889 / 10 ^ 12 * 1]"
  by (simp add: main_reports energy_reports_def cpu_reports_def map_filter_simps
      energiaJoules_def totalTimeSeconds_def ull_to_double_def fileTimeToULL_def QuadPart_def
      potenciaEstimadaW_def)

section \<open>Properties of the metering engine\<close>

lemma accumulated_start [simp]: "accumulated (start r now) = 0"
  by (simp add: start_def)

lemma accumulated_stop [simp]: "accumulated (stop pf now m) = accumulated (sample pf now m)"
  by (simp add: stop_def)

lemma accumulated_sample_ge:
  "0 \<le> pf \<Longrightarrow> accumulated m \<le> accumulated (sample pf now m)"
  by (simp add: sample_def energy_def Let_def)

lemma sum_start_untracked:
  "sum_list (map accumulated (start_untracked now rs ms)) = sum_list (map accumulated ms)"
  by (induction rs arbitrary: ms) simp_all

lemma sum_list_split:
  "sum_list (map f (filter P xs)) + sum_list (map f (filter (\<lambda>x. \<not> P x) xs))
     = (sum_list (map f xs) :: real)"
  by (induction xs) simp_all

lemma sum_sample_ge:
  "0 \<le> pf \<Longrightarrow>
   sum_list (map accumulated ms) \<le> sum_list (map accumulated (map (sample pf now) ms))"
  by (induction ms) (simp_all add: add_mono accumulated_sample_ge)

text \<open>After a cycle the total is made of the sampled survivors, the earlier final
  monitors, and the monitors this cycle removed, at the value they were stopped with.\<close>

lemma totalEnergy_reconcile:
  "totalEnergy (reconcile pf snapshot now reg)
     = sum_list (map accumulated (map (sample pf now) (filter (present snapshot) (active reg))))
       + sum_list (map accumulated (final reg))
       + sum_list (map accumulated
           (map (sample pf now) (filter (\<lambda>m. \<not> present snapshot m) (active reg))))"
  by (simp add: totalEnergy_def reconcile_def Let_def sum_start_untracked comp_def)

lemma totalEnergy_mono:
  assumes "0 \<le> pf"
  shows "totalEnergy reg \<le> totalEnergy (reconcile pf snapshot now reg)"
proof -
  have "totalEnergy reg
          = sum_list (map accumulated (filter (present snapshot) (active reg)))
            + sum_list (map accumulated (final reg))
            + sum_list (map accumulated (filter (\<lambda>m. \<not> present snapshot m) (active reg)))"
    using sum_list_split [of accumulated "present snapshot" "active reg"]
    by (simp add: totalEnergy_def)
  also have "\<dots> \<le> totalEnergy (reconcile pf snapshot now reg)"
    unfolding totalEnergy_reconcile
    by (intro add_mono sum_sample_ge assms order_refl)
  finally show ?thesis .
qed

lemma totalEnergy_cycles:
  "totalEnergy (cycles pf cs reg)
     = sum_list (map accumulated (active (cycles pf cs reg)))
       + sum_list (map accumulated (final reg))
       + sum_list (removed_values pf cs reg)"
proof (induction cs arbitrary: reg)
  case Nil
  then show ?case by (simp add: totalEnergy_def)
next
  case (Cons c cs)
  obtain snapshot now where c: "c = (snapshot, now)" by (cases c)
  show ?case
    unfolding c by (simp add: Cons.IH) (simp add: reconcile_def Let_def comp_def)
qed

text \<open>
  Claim C7. After every sequence of reconcile cycles, started from the empty registry,
  \<open>totalEnergy\<close> is the sum over the monitors that are active now plus the sum of the
  final values of all the monitors removed so far. Removing a monitor subtracts nothing:
  with a power factor that is not negative, no reconcile cycle makes the total smaller.
\<close>

theorem totalEnergy_sums_every_monitor:
  "totalEnergy (cycles pf cs emptyRegistry)
     = sum_list (map accumulated (active (cycles pf cs emptyRegistry)))
       + sum_list (removed_values pf cs emptyRegistry)
   \<and> (0 \<le> pf \<longrightarrow> totalEnergy reg \<le> totalEnergy (reconcile pf snapshot now reg))"
  using totalEnergy_cycles [of pf cs emptyRegistry] totalEnergy_mono [of pf reg snapshot now]
  by (simp add: emptyRegistry_def)

text \<open>The scripted run of the specification: process A is present at ticks 1 to 3,
  process B at ticks 2 to 4, the power factor is 50. A is stopped at tick 4 with 150, B
  at tick 5 with 150, and the total is 300. The last cycle, which removes B, does not
  lower the total.\<close>

theorem totalEnergy_sums_every_monitor_witness:
  "(let A = \<lparr>proc_id = 1, proc_name = ''A'', cpuTimeSeconds = None\<rparr>;
        B = \<lparr>proc_id = 2, proc_name = ''B'', cpuTimeSeconds = None\<rparr>;
        script = [([A], 1), ([A, B], 2), ([A, B], 3), ([B], 4)]
    in totalEnergy (cycles 50 (script @ [([], 5)]) emptyRegistry) = 0 + (150 + 150)
       \<and> totalEnergy (cycles 50 script emptyRegistry)
           \<le> totalEnergy (reconcile 50 [] 5 (cycles 50 script emptyRegistry)))"
proof -
  define A where "A = \<lparr>proc_id = 1, proc_name = ''A'', cpuTimeSeconds = None\<rparr>"
  define B where "B = \<lparr>proc_id = 2, proc_name = ''B'', cpuTimeSeconds = None\<rparr>"
  define script :: "(ProcessRecord list \<times> real) list"
    where "script = [([A], 1), ([A, B], 2), ([A, B], 3), ([B], 4)]"
  have a: "sum_list (map accumulated (active (cycles 50 (script @ [([], 5)]) emptyRegistry))) = 0"
    by (simp add: script_def A_def B_def emptyRegistry_def reconcile_def present_def
        tracked_def start_def stop_def sample_def energy_def)
  have r: "sum_list (removed_values 50 (script @ [([], 5)]) emptyRegistry) = 150 + 150"
    by (simp add: script_def A_def B_def emptyRegistry_def reconcile_def present_def
        tracked_def start_def stop_def sample_def energy_def)
  have "totalEnergy (cycles 50 (script @ [([], 5)]) emptyRegistry) = 0 + (150 + 150)
        \<and> totalEnergy (cycles 50 script emptyRegistry)
            \<le> totalEnergy (reconcile 50 [] 5 (cycles 50 script emptyRegistry))"
    using totalEnergy_sums_every_monitor [of 50 "script @ [([], 5)]"
        "cycles 50 script emptyRegistry" "[]" 5]
    by (simp only: a r)
  then show ?thesis
    unfolding Let_def script_def A_def B_def .
qed

end
